theory Spec2Isabelle
  imports Main "HOL-Library.Sublist"
begin

section \<open>Python values\<close>

text \<open>
  The values that flow through \<^verbatim>\<open>rest_assured/testcases.py\<close>: request and response
  bodies, attributes of model instances, primary keys. Booleans and floats are left out, so
  that Python's \<^verbatim>\<open>==\<close> on these values is equality of the terms below; \<^verbatim>\<open>str\<close> and
  \<^verbatim>\<open>unicode\<close> are one type of strings, and a dictionary is written with its items in
  the order in which Python iterates over them.

  \<^item> \<open>PObject attrs\<close> is a model instance with the attributes \<open>attrs\<close>;
  \<^item> \<open>PManager items\<close> is a related manager (\<^verbatim>\<open>django.db.models.Manager\<close>) whose
    \<^verbatim>\<open>all()\<close> yields \<open>items\<close>.
\<close>

datatype pyval =
    PNone
  | PInt int
  | PStr string
  | PList "pyval list"
  | PDict "(string \<times> pyval) list"
  | PObject "(string \<times> pyval) list"
  | PManager "pyval list"

type_synonym dict = "(string \<times> pyval) list"

text \<open>The exceptions a test method can end with. \<open>Other\<close> stands for the exceptions of
  the frameworks that the module never names (\<^verbatim>\<open>NoReverseMatch\<close>,
  \<^verbatim>\<open>MultipleObjectsReturned\<close>, ...). \<open>ObjectDoesNotExist\<close> stands for every instance of
  \<^verbatim>\<open>django.core.exceptions.ObjectDoesNotExist\<close>, the \<^verbatim>\<open>DoesNotExist\<close> of a model
  included.\<close>

datatype exn =
    AssertionError
  | ObjectDoesNotExist
  | AttributeError
  | KeyError
  | TypeError
  | Other string

subsection \<open>Built-in operations\<close>

text \<open>\<^verbatim>\<open>getattr(v, name)\<close>: only model instances carry the attributes the module asks
  for; on every other value the lookup raises \<^verbatim>\<open>AttributeError\<close>.\<close>

fun py_getattr :: "pyval \<Rightarrow> string \<Rightarrow> exn + pyval" where
  "py_getattr (PObject attrs) name =
     (case map_of attrs name of None \<Rightarrow> Inl AttributeError | Some v \<Rightarrow> Inr v)"
| "py_getattr _ name = Inl AttributeError"



text \<open>\<^verbatim>\<open>d.get(key, default)\<close> on a dictionary.\<close>

definition dict_get :: "dict \<Rightarrow> string \<Rightarrow> pyval \<Rightarrow> pyval" where
  "dict_get d key dflt = (case map_of d key of None \<Rightarrow> dflt | Some v \<Rightarrow> v)"

text \<open>\<^verbatim>\<open>v.get(key)\<close>: a method of dictionaries only; the default is \<^verbatim>\<open>None\<close>.\<close>

fun py_get :: "pyval \<Rightarrow> string \<Rightarrow> exn + pyval" where
  "py_get (PDict d) key = Inr (dict_get d key PNone)"
| "py_get _ key = Inl AttributeError"

text \<open>\<^verbatim>\<open>v[key]\<close> with a string key: \<^verbatim>\<open>KeyError\<close> on a dictionary without the key,
  \<^verbatim>\<open>TypeError\<close> on a value that is not subscriptable by a string.\<close>

fun py_getitem :: "pyval \<Rightarrow> string \<Rightarrow> exn + pyval" where
  "py_getitem (PDict d) key =
     (case map_of d key of None \<Rightarrow> Inl KeyError | Some v \<Rightarrow> Inr v)"
| "py_getitem _ key = Inl TypeError"



text \<open>Decimal digits of an integer, as \<^verbatim>\<open>unicode(n)\<close> writes them.\<close>

fun str_nat :: "nat \<Rightarrow> string" where
  "str_nat n =
     (if n < 10 then [''0123456789'' ! n]
      else str_nat (n div 10) @ [''0123456789'' ! (n mod 10)])"

declare str_nat.simps [simp del]

definition str_int :: "int \<Rightarrow> string" where
  "str_int i = (if i < 0 then ''-'' @ str_nat (nat (- i)) else str_nat (nat i))"

section \<open>The frameworks around the module\<close>

type_synonym kwargs = "(string \<times> pyval) list"

text \<open>A request as the module hands it to the test client: the URL, the body where the
  call passes one, and the extra keyword arguments where the call forwards them.\<close>

datatype request =
    Get string kwargs
  | Post string dict kwargs
  | Delete string kwargs
  | Patch string "dict option"
  | Put string "dict option"

record response =
  status_code :: int
  data :: pyval

text \<open>
  Routing, the test client, the ORM and the text of compound values belong to Django, the
  REST framework and the Python runtime, not to this module, so they are parameters:
  \<^item> \<open>reverse name args\<close> is \<^verbatim>\<open>rest_framework.reverse.reverse(name, args=args)\<close>;
  \<^item> \<open>client req w\<close> is a call of \<^verbatim>\<open>self.client\<close>; it answers or raises, and it may change
    the database and the rest of the world \<open>w\<close>;
  \<^item> \<open>objects_get w obj field v\<close> is
    \<^verbatim>\<open>obj.__class__.objects.get(**{field: v})\<close> in the world \<open>w\<close>;
  \<^item> \<open>text_of v\<close> is \<^verbatim>\<open>unicode(v)\<close> for a list, dictionary, model instance or manager.
\<close>

record 'w env =
  reverse :: "string \<Rightarrow> pyval list \<Rightarrow> exn + string"
  client :: "request \<Rightarrow> 'w \<Rightarrow> (exn + response) \<times> 'w"
  objects_get :: "'w \<Rightarrow> pyval \<Rightarrow> string \<Rightarrow> pyval \<Rightarrow> exn + pyval"
  text_of :: "pyval \<Rightarrow> string"

text \<open>\<^verbatim>\<open>unicode(v)\<close>.\<close>

fun py_unicode :: "'w env \<Rightarrow> pyval \<Rightarrow> pyval" where
  "py_unicode e (PStr s) = PStr s"
| "py_unicode e (PInt i) = PStr (str_int i)"
| "py_unicode e PNone = PStr ''None''"
| "py_unicode e v = PStr (text_of e v)"

text \<open>The constants of \<^verbatim>\<open>rest_framework.status\<close> that the module uses.\<close>

definition HTTP_200_OK :: int where "HTTP_200_OK = 200"
definition HTTP_201_CREATED :: int where "HTTP_201_CREATED = 201"
definition HTTP_204_NO_CONTENT :: int where "HTTP_204_NO_CONTENT = 204"
definition HTTP_400_BAD_REQUEST :: int where "HTTP_400_BAD_REQUEST = 400"

section \<open>Running a test method\<close>

text \<open>The state of a run: the world behind the client and the ORM, and a trace of what
  the method did: what it printed (each entry \<open>d\<close> is the output of
  \<^verbatim>\<open>print '\n%s' % d\<close>), the route names and arguments it gave to \<^verbatim>\<open>reverse\<close>, the
  requests it sent and the responses it received.\<close>

record 'w run =
  world :: 'w
  stdout :: "pyval list"
  resolved :: "(string \<times> pyval list) list"
  sent :: "request list"
  received :: "response list"

type_synonym ('w, 'a) test = "'w run \<Rightarrow> (exn + 'a) \<times> 'w run"

definition return :: "'a \<Rightarrow> ('w, 'a) test" where
  "return x s = (Inr x, s)"

text \<open>Sequencing: an exception ends the method, with the state reached so far.\<close>

definition seq :: "('w, 'a) test \<Rightarrow> ('a \<Rightarrow> ('w, 'b) test) \<Rightarrow> ('w, 'b) test" where
  "seq m f s = (case m s of (Inl e, s') \<Rightarrow> (Inl e, s') | (Inr x, s') \<Rightarrow> f x s')"

text \<open>An expression that does not touch the state and may raise.\<close>

definition compute :: "exn + 'a \<Rightarrow> ('w, 'a) test" where
  "compute r s = (r, s)"

text \<open>The same sequencing for expressions.\<close>

fun and_then :: "exn + 'a \<Rightarrow> ('a \<Rightarrow> exn + 'b) \<Rightarrow> exn + 'b" where
  "and_then (Inl e) f = Inl e"
| "and_then (Inr x) f = f x"

definition print_data :: "pyval \<Rightarrow> ('w, unit) test" where
  "print_data d s = (Inr (), s\<lparr>stdout := stdout s @ [d]\<rparr>)"

definition call_reverse :: "'w env \<Rightarrow> string \<Rightarrow> pyval list \<Rightarrow> ('w, string) test" where
  "call_reverse e name args s =
     (reverse e name args, s\<lparr>resolved := resolved s @ [(name, args)]\<rparr>)"

definition call_client :: "'w env \<Rightarrow> request \<Rightarrow> ('w, response) test" where
  "call_client e req s =
     (case client e req (world s) of
        (Inl x, w') \<Rightarrow> (Inl x, s\<lparr>world := w', sent := sent s @ [req]\<rparr>)
      | (Inr r, w') \<Rightarrow>
          (Inr r, s\<lparr>world := w', sent := sent s @ [req], received := received s @ [r]\<rparr>))"

text \<open>\<^verbatim>\<open>self.object.__class__.objects.get(**{field: v})\<close>: only a model class has the
  manager \<^verbatim>\<open>objects\<close>.\<close>

definition model_get :: "'w env \<Rightarrow> pyval \<Rightarrow> string \<Rightarrow> pyval \<Rightarrow> ('w, pyval) test" where
  "model_get e obj field v s =
     (case obj of
        PObject attrs \<Rightarrow> (objects_get e (world s) obj field v, s)
      | _ \<Rightarrow> (Inl AttributeError, s))"

subsection \<open>Assertions of the test framework\<close>

definition assertEqual :: "'a \<Rightarrow> 'a \<Rightarrow> exn + unit" where
  "assertEqual first second = (if first = second then Inr () else Inl AssertionError)"


text \<open>\<^verbatim>\<open>assertRaises(ObjectDoesNotExist, call)\<close>, by the outcome of the call: it passes
  when the call raised the expected exception, fails when the call returned, and lets any
  other exception through.\<close>

fun raised_ObjectDoesNotExist :: "exn + 'a \<Rightarrow> exn + unit" where
  "raised_ObjectDoesNotExist (Inl ObjectDoesNotExist) = Inr ()"
| "raised_ObjectDoesNotExist (Inl e) = Inl e"
| "raised_ObjectDoesNotExist (Inr x) = Inl AssertionError"

definition assertRaises_ObjectDoesNotExist :: "('w, 'a) test \<Rightarrow> ('w, unit) test" where
  "assertRaises_ObjectDoesNotExist call s =
     (case call s of (r, s') \<Rightarrow> (raised_ObjectDoesNotExist r, s'))"

section \<open>The test case classes\<close>

subsection \<open>Attributes\<close>

text \<open>An entry of \<^verbatim>\<open>attributes_to_check\<close>: an attribute name, or a tuple, list or set
  that holds a key and a callable.\<close>

datatype seq_kind = TupleK | ListK | SetK

datatype attr_check =
    Name string
  | Seq seq_kind string "pyval \<Rightarrow> exn + pyval"

text \<open>
  The attributes of a test case instance that the test methods read.
  \<^item> \<open>base_name\<close>, \<open>create_data\<close> and \<open>update_data\<close> are \<^verbatim>\<open>None\<close> or
    a string, respectively a dictionary;
  \<^item> \<open>create_name\<close>, \<open>update_name\<close> and \<open>destroy_name\<close> are defined by no class of the
    module: \<open>None\<close> says that the instance has no such attribute;
  \<^item> \<open>update_results_override\<close> is \<open>None\<close> when no subclass and no instance assigns
    \<^verbatim>\<open>update_results\<close>, else the value assigned (\<^verbatim>\<open>None\<close> or a dictionary).
\<close>

record testcase =
  base_name :: "string option"
  LIST_SUFFIX :: string
  DETAIL_SUFFIX :: string
  lookup_field :: string
  object :: pyval
  attributes_to_check :: "attr_check list"
  create_data :: "dict option"
  create_name :: "string option"
  destroy_name :: "string option"
  use_patch :: bool
  update_data :: "dict option"
  update_name :: "string option"
  update_results_override :: "dict option option"

text \<open>The values the class bodies assign (\<^verbatim>\<open>id\<close> is not called on the object:
  the default list of attributes to check is \<^verbatim>\<open>['id']\<close>).\<close>

definition class_attributes :: testcase where
  "class_attributes =
     \<lparr>base_name = None, LIST_SUFFIX = ''-list'', DETAIL_SUFFIX = ''-detail'',
      lookup_field = ''pk'', object = PNone, attributes_to_check = [Name ''id''],
      create_data = None, create_name = None, destroy_name = None, use_patch = True,
      update_data = None, update_name = None, update_results_override = None\<rparr>"

text \<open>\<^verbatim>\<open>self.base_name + suffix\<close>: \<^verbatim>\<open>None + '-list'\<close> is a \<^verbatim>\<open>TypeError\<close>.\<close>

definition route_name :: "string option \<Rightarrow> string \<Rightarrow> exn + string" where
  "route_name base sfx =
     (case base of None \<Rightarrow> Inl TypeError | Some b \<Rightarrow> Inr (b @ sfx))"

subsection \<open>ListAPITestCaseMixin\<close>


subsection \<open>DetailAPITestCaseMixin\<close>

text \<open>Subscripting an entry: a tuple or a list gives the item, a set does not support
  indexing.\<close>

fun seq_item :: "seq_kind \<Rightarrow> 'a \<Rightarrow> exn + 'a" where
  "seq_item SetK x = Inl TypeError"
| "seq_item _ x = Inr x"

fun check_attributes :: "'w env \<Rightarrow> pyval \<Rightarrow> attr_check list \<Rightarrow> pyval \<Rightarrow> exn + unit" where
  "check_attributes e obj [] d = Inr ()"
| "check_attributes e obj (Name attr # rest) d =
     and_then (py_getattr obj attr) (\<lambda>a.
     and_then (py_getitem d attr) (\<lambda>expected.
     and_then (assertEqual (py_unicode e a) expected) (\<lambda>_.
     check_attributes e obj rest d)))"
| "check_attributes e obj (Seq kind key f # rest) d =
     and_then (seq_item kind f) (\<lambda>callable.
     and_then (callable obj) (\<lambda>v.
     and_then (seq_item kind key) (\<lambda>attr.
     and_then (py_getitem d attr) (\<lambda>expected.
     and_then (assertEqual v expected) (\<lambda>_.
     check_attributes e obj rest d)))))"

definition test_detail :: "'w env \<Rightarrow> testcase \<Rightarrow> kwargs \<Rightarrow> ('w, response) test" where
  "test_detail e self kw =
     seq (compute (py_getattr (object self) (lookup_field self))) (\<lambda>object_id.
     seq (compute (route_name (base_name self) (DETAIL_SUFFIX self))) (\<lambda>name.
     seq (call_reverse e name [py_unicode e object_id]) (\<lambda>detailview.
     seq (call_client e (Get detailview kw)) (\<lambda>response.
     seq (if status_code response \<noteq> HTTP_200_OK then print_data (data response)
          else return ()) (\<lambda>_.
     seq (compute (assertEqual (status_code response) HTTP_200_OK)) (\<lambda>_.
     seq (compute (check_attributes e (object self) (attributes_to_check self)
            (data response))) (\<lambda>_.
     return response)))))))"

subsection \<open>CreateAPITestCaseMixin\<close>

definition get_create_data :: "testcase \<Rightarrow> dict option" where
  "get_create_data self = create_data self"

definition get_create_name :: "testcase \<Rightarrow> exn + string" where
  "get_create_name self =
     (case create_name self of
        Some view_name \<Rightarrow> Inr view_name
      | None \<Rightarrow> route_name (base_name self) (LIST_SUFFIX self))"

text \<open>\<^verbatim>\<open>data or {}\<close>: \<^verbatim>\<open>None\<close> and the empty dictionary are falsy.\<close>

fun or_empty :: "dict option \<Rightarrow> dict" where
  "or_empty None = []"
| "or_empty (Some []) = []"
| "or_empty (Some d) = d"

definition test_create ::
  "'w env \<Rightarrow> testcase \<Rightarrow> dict option \<Rightarrow> kwargs \<Rightarrow> ('w, response \<times> pyval) test" where
  "test_create e self data_arg kw =
     (let d = (case data_arg of None \<Rightarrow> get_create_data self | Some x \<Rightarrow> Some x) in
      seq (compute (get_create_name self)) (\<lambda>name.
      seq (call_reverse e name []) (\<lambda>create_view.
      seq (call_client e (Post create_view (or_empty d) kw)) (\<lambda>response.
      seq (if status_code response \<noteq> HTTP_201_CREATED then print_data (data response)
           else return ()) (\<lambda>_.
      seq (compute (assertEqual (status_code response) HTTP_201_CREATED)) (\<lambda>_.
      seq (compute (py_get (data response) ''id'')) (\<lambda>ident.
      seq (model_get e (object self) ''id'' ident) (\<lambda>created.
      return (response, created)))))))))"

subsection \<open>DestroyAPITestCaseMixin\<close>



subsection \<open>UpdateAPITestCaseMixin\<close>












subsection \<open>The class hierarchy of the mixins\<close>

datatype mixin =
    ListAPITestCaseMixin
  | DetailAPITestCaseMixin
  | CreateAPITestCaseMixin
  | DestroyAPITestCaseMixin
  | UpdateAPITestCaseMixin
  | ReadRESTAPITestCaseMixin
  | WriteRESTAPITestCaseMixin
  | ReadWriteRESTAPITestCaseMixin

text \<open>The base classes of each mixin, in the order of its \<^verbatim>\<open>class\<close> statement
  (\<^verbatim>\<open>object\<close>, which has no test method, is left out).\<close>

fun bases :: "mixin \<Rightarrow> mixin list" where
  "bases ReadRESTAPITestCaseMixin = [ListAPITestCaseMixin, DetailAPITestCaseMixin]"
| "bases WriteRESTAPITestCaseMixin =
     [CreateAPITestCaseMixin, UpdateAPITestCaseMixin, DestroyAPITestCaseMixin]"
| "bases ReadWriteRESTAPITestCaseMixin =
     [ReadRESTAPITestCaseMixin, WriteRESTAPITestCaseMixin]"
| "bases _ = []"

text \<open>The methods that the body of each class defines, in the order of the source.\<close>

fun own_methods :: "mixin \<Rightarrow> string list" where
  "own_methods ListAPITestCaseMixin = [''test_list'']"
| "own_methods DetailAPITestCaseMixin = [''test_detail'', ''_check_attributes'']"
| "own_methods CreateAPITestCaseMixin =
     [''get_create_data'', ''test_create'', ''_get_create_name'']"
| "own_methods DestroyAPITestCaseMixin = [''test_destroy'', ''_get_destroy_name'']"
| "own_methods UpdateAPITestCaseMixin =
     [''get_update_data'', ''get_update_results'', ''test_update'', ''_get_update_name'',
      ''_update_check_db'']"
| "own_methods ReadRESTAPITestCaseMixin = []"
| "own_methods WriteRESTAPITestCaseMixin = []"
| "own_methods ReadWriteRESTAPITestCaseMixin = []"

fun depth :: "mixin \<Rightarrow> nat" where
  "depth ReadRESTAPITestCaseMixin = 1"
| "depth WriteRESTAPITestCaseMixin = 1"
| "depth ReadWriteRESTAPITestCaseMixin = 2"
| "depth _ = 0"

text \<open>The methods a class has: its own and the inherited ones.\<close>

function all_methods :: "mixin \<Rightarrow> string list" where
  "all_methods c = own_methods c @ concat (map all_methods (bases c))"
  by pat_completeness auto
termination
proof (relation "measure depth")
  show "wf (measure depth)" by simp
next
  fix c x
  assume "x \<in> set (bases c)"
  then show "(x, c) \<in> measure depth" by (cases c) auto
qed

declare all_methods.simps [simp del]

text \<open>The test runner collects the methods whose name starts with \<^verbatim>\<open>test\<close>.\<close>

definition test_methods :: "string list \<Rightarrow> string list" where
  "test_methods names = filter (prefix ''test'') names"

section \<open>Properties of a run\<close>

text \<open>\<open>ensures m s Q\<close>: running \<open>m\<close> from the state \<open>s\<close> ends with an outcome and a state
  that satisfy \<open>Q\<close>.\<close>

definition ensures ::
  "('w, 'a) test \<Rightarrow> 'w run \<Rightarrow> (exn + 'a \<Rightarrow> 'w run \<Rightarrow> bool) \<Rightarrow> bool" where
  "ensures m s Q = Q (fst (m s)) (snd (m s))"

text \<open>\<open>keeps g m\<close>: running \<open>m\<close> leaves the component \<open>g\<close> of the state as it was.\<close>

definition keeps :: "('w run \<Rightarrow> 'b) \<Rightarrow> ('w, 'a) test \<Rightarrow> bool" where
  "keeps g m = (\<forall>s. g (snd (m s)) = g s)"





section \<open>A concrete instance of the frameworks\<close>

text \<open>
  A small server for concrete runs. The world is the table of the model. \<open>GET\<close> answers
  200 with a page of results and the fields of the first object, \<open>POST\<close> stores a new row
  with the id 2 and answers 201, \<open>DELETE\<close> empties the table and answers 204, \<open>PATCH\<close> and
  \<open>PUT\<close> write the posted fields into every row and answer 200.
\<close>

definition demo_reverse :: "string \<Rightarrow> pyval list \<Rightarrow> exn + string" where
  "demo_reverse name args = Inr (''/'' @ name @ ''/'')"

fun write_fields :: "dict \<Rightarrow> pyval \<Rightarrow> pyval" where
  "write_fields d (PObject attrs) = PObject (d @ attrs)"
| "write_fields d v = v"

fun demo_client :: "request \<Rightarrow> pyval list \<Rightarrow> (exn + response) \<times> pyval list" where
  "demo_client (Get url kw) rows =
     (Inr \<lparr>status_code = 200,
           data = PDict [(''results'', PList []), (''id'', PStr ''1'')]\<rparr>, rows)"
| "demo_client (Post url d kw) rows =
     (Inr \<lparr>status_code = 201, data = PDict ((''id'', PInt 2) # d)\<rparr>,
      rows @ [PObject ((''id'', PInt 2) # (''pk'', PInt 2) # d)])"
| "demo_client (Delete url kw) rows = (Inr \<lparr>status_code = 204, data = PNone\<rparr>, [])"
| "demo_client (Patch url d) rows =
     (Inr \<lparr>status_code = 200, data = PDict (or_empty d)\<rparr>, map (write_fields (or_empty d)) rows)"
| "demo_client (Put url d) rows =
     (Inr \<lparr>status_code = 200, data = PDict (or_empty d)\<rparr>, map (write_fields (or_empty d)) rows)"

definition demo_objects_get :: "pyval list \<Rightarrow> pyval \<Rightarrow> string \<Rightarrow> pyval \<Rightarrow> exn + pyval" where
  "demo_objects_get rows obj field v =
     (case filter (\<lambda>row. py_getattr row field = Inr v) rows of
        [] \<Rightarrow> Inl ObjectDoesNotExist
      | [row] \<Rightarrow> Inr row
      | _ \<Rightarrow> Inl (Other ''MultipleObjectsReturned''))"

definition demo_env :: "pyval list env" where
  "demo_env =
     \<lparr>reverse = demo_reverse, client = demo_client, objects_get = demo_objects_get,
      text_of = (\<lambda>v. ''<object>'')\<rparr>"

text \<open>The same frameworks with a server that answers every request with the status
  \<open>code\<close> and an error body, and changes nothing.\<close>

definition error_body :: pyval where
  "error_body = PDict [(''detail'', PStr ''Not found.'')]"

definition refusing_env :: "int \<Rightarrow> pyval list env" where
  "refusing_env code =
     demo_env\<lparr>client := (\<lambda>req rows. (Inr \<lparr>status_code = code, data = error_body\<rparr>, rows))\<rparr>"

definition demo_object :: pyval where
  "demo_object = PObject [(''id'', PInt 1), (''pk'', PInt 1), (''name'', PStr ''tea'')]"

definition demo_case :: testcase where
  "demo_case =
     class_attributes\<lparr>base_name := Some ''thing'', object := demo_object,
       create_data := Some [(''name'', PStr ''milk'')],
       update_data := Some [(''name'', PStr ''green tea'')]\<rparr>"

definition demo_start :: "pyval list run" where
  "demo_start = \<lparr>world = [demo_object], stdout = [], resolved = [], sent = [], received = []\<rparr>"


section \<open>Rules for runs\<close>






lemma ensures_client:
  "ensures (call_client e req) s Q =
     (case fst (client e req (world s)) of
        Inl x \<Rightarrow> Q (Inl x) (s\<lparr>world := snd (client e req (world s)), sent := sent s @ [req]\<rparr>)
      | Inr r \<Rightarrow> Q (Inr r) (s\<lparr>world := snd (client e req (world s)), sent := sent s @ [req],
                              received := received s @ [r]\<rparr>))"
  by (simp add: ensures_def call_client_def split: prod.splits sum.splits)





lemmas status_defs = HTTP_200_OK_def HTTP_201_CREATED_def HTTP_204_NO_CONTENT_def
  HTTP_400_BAD_REQUEST_def

section \<open>Status codes\<close>






section \<open>Concrete runs\<close>

lemmas run_defs = seq_def compute_def return_def print_data_def call_reverse_def
  call_client_def model_get_def assertRaises_ObjectDoesNotExist_def

lemmas demo_defs = demo_env_def refusing_env_def demo_case_def demo_start_def demo_object_def
  demo_reverse_def demo_objects_get_def class_attributes_def error_body_def route_name_def



lemma str_int_1: "str_int 1 = ''1''"
  by (simp add: str_int_def str_nat.simps)














section \<open>Diagnostic printing\<close>

lemma demo_start_fields:
  "world demo_start = [demo_object]" "stdout demo_start = []" "resolved demo_start = []"
  "sent demo_start = []" "received demo_start = []"
  by (simp_all add: demo_start_def)








section \<open>Checks against the database\<close>







section \<open>Route names and request bodies\<close>

lemma keeps_seq:
  assumes "keeps g m" and "\<And>x. keeps g (f x)"
  shows "keeps g (seq m f)"
  unfolding keeps_def
proof
  fix s
  obtain r s1 where m: "m s = (r, s1)" by (cases "m s")
  from assms(1) m have s1: "g s1 = g s" by (auto simp add: keeps_def dest: spec [of _ s])
  show "g (snd (seq m f s)) = g s"
  proof (cases r)
    case (Inl x)
    with m s1 show ?thesis by (simp add: seq_def)
  next
    case (Inr v)
    from assms(2) [of v] have "g (snd (f v s1)) = g s1" by (simp add: keeps_def)
    with m s1 Inr show ?thesis by (simp add: seq_def)
  qed
qed

lemma keeps_compute: "keeps g (compute r)"
  by (simp add: keeps_def compute_def)

lemma keeps_return: "keeps g (return x)"
  by (simp add: keeps_def return_def)

lemma keeps_if: "keeps g m1 \<Longrightarrow> keeps g m2 \<Longrightarrow> keeps g (if b then m1 else m2)"
  by simp

lemma keeps_model_get: "keeps g (model_get e obj field v)"
  by (simp add: keeps_def model_get_def split: pyval.splits)

lemma keeps_assertRaises: "keeps g m \<Longrightarrow> keeps g (assertRaises_ObjectDoesNotExist m)"
  by (simp add: keeps_def assertRaises_ObjectDoesNotExist_def case_prod_unfold)

lemma keeps_print: "keeps resolved (print_data d)" "keeps sent (print_data d)"
  by (simp_all add: keeps_def print_data_def)

lemma keeps_client: "keeps resolved (call_client e req)"
  by (simp add: keeps_def call_client_def split: prod.splits sum.splits)

lemmas keeps_rules = keeps_seq keeps_compute keeps_return keeps_if keeps_model_get
  keeps_assertRaises keeps_print keeps_client

lemma ensures_seq_keeps:
  "(\<And>x. keeps g (f x)) \<Longrightarrow>
   ensures (seq m f) s (\<lambda>out s'. P (g s')) = ensures m s (\<lambda>out s'. P (g s'))"
  by (simp add: keeps_def ensures_def seq_def split: prod.splits sum.splits)

lemma seq_compute_Inr: "ensures (seq (compute (Inr x)) f) s Q = ensures (f x) s Q"
  by (simp add: ensures_def seq_def compute_def)

lemma seq_reverse_Inr:
  "reverse e name args = Inr url \<Longrightarrow>
   ensures (seq (call_reverse e name args) f) s Q =
     ensures (f url) (s\<lparr>resolved := resolved s @ [(name, args)]\<rparr>) Q"
  by (simp add: ensures_def seq_def call_reverse_def)







lemma demo_case_fields:
  "base_name demo_case = Some ''thing''" "LIST_SUFFIX demo_case = ''-list''"
  "DETAIL_SUFFIX demo_case = ''-detail''" "lookup_field demo_case = ''pk''"
  "object demo_case = demo_object" "create_name demo_case = None"
  "update_name demo_case = None" "destroy_name demo_case = None"
  "create_data demo_case = Some [(''name'', PStr ''milk'')]"
  "py_getattr demo_object ''pk'' = Inr (PInt 1)"
  by (simp_all add: demo_case_def class_attributes_def demo_object_def)


text \<open>
  C10. \<^verbatim>\<open>test_create\<close> does not fail for want of data before it sends the request. Once
  the route is resolved, it sends one \<^verbatim>\<open>POST\<close> whose body is the data argument, or
  \<^verbatim>\<open>get_create_data()\<close> (the attribute \<^verbatim>\<open>create_data\<close>, \<^verbatim>\<open>None\<close> in the class) when the
  argument is \<^verbatim>\<open>None\<close>; when the data so resolved is \<^verbatim>\<open>None\<close> or empty, the body is the
  empty dictionary.
\<close>

theorem create_request_always_sent:
  assumes "get_create_name self = Inr name" and "reverse e name [] = Inr url"
  shows
    "ensures (test_create e self d kw) s (\<lambda>out s'.
       sent s' = sent s @
         [Post url (case (case d of None \<Rightarrow> create_data self | Some x \<Rightarrow> Some x) of
                      None \<Rightarrow> [] | Some body \<Rightarrow> body) kw])
     \<and> get_create_data self = create_data self
     \<and> create_data class_attributes = None
     \<and> (d = None \<and> (create_data self = None \<or> create_data self = Some []) \<longrightarrow>
          ensures (test_create e self d kw) s (\<lambda>out s'. sent s' = sent s @ [Post url [] kw]))"
proof -
  have body: "or_empty x = (case x of None \<Rightarrow> [] | Some body \<Rightarrow> body)" for x
    by (cases x rule: or_empty.cases) simp_all
  have main: "ensures (test_create e self d kw) s (\<lambda>out s'.
       sent s' = sent s @
         [Post url (case (case d of None \<Rightarrow> create_data self | Some x \<Rightarrow> Some x) of
                      None \<Rightarrow> [] | Some body \<Rightarrow> body) kw])"
    unfolding test_create_def Let_def get_create_data_def
    using assms
    by (simp add: seq_compute_Inr seq_reverse_Inr body)
      (subst ensures_seq_keeps [where g = sent], (intro keeps_rules)+,
        simp add: ensures_client split: sum.splits)
  then show ?thesis
    by (auto simp add: get_create_data_def class_attributes_def)
qed

theorem create_request_always_sent_witness:
  "get_create_name (demo_case\<lparr>create_data := None\<rparr>) = Inr ''thing-list''
   \<and> reverse demo_env ''thing-list'' [] = Inr ''/thing-list/''
   \<and> create_data (demo_case\<lparr>create_data := None\<rparr>) = None
   \<and> sent (snd (test_create demo_env (demo_case\<lparr>create_data := None\<rparr>) None [] demo_start))
       = [Post ''/thing-list/'' [] []]
   \<and> sent (snd (test_create demo_env demo_case None [] demo_start))
       = [Post ''/thing-list/'' [(''name'', PStr ''milk'')] []]"
  using
    create_request_always_sent [of "demo_case\<lparr>create_data := None\<rparr>" "''thing-list''"
      demo_env "''/thing-list/''" None "[]" demo_start]
    create_request_always_sent [of demo_case "''thing-list''"
      demo_env "''/thing-list/''" None "[]" demo_start]
  by (simp add: demo_case_fields demo_start_fields ensures_def get_create_name_def
      route_name_def demo_env_def demo_reverse_def)

section \<open>The classes\<close>

text \<open>
  C7. Each of the five verb mixins defines one test method, named after its verb. The
  composed mixins define no method: the test methods of \<^verbatim>\<open>ReadRESTAPITestCaseMixin\<close> are
  the list and detail tests, those of \<^verbatim>\<open>WriteRESTAPITestCaseMixin\<close> the create, update and
  destroy tests, and those of \<^verbatim>\<open>ReadWriteRESTAPITestCaseMixin\<close> all five.
\<close>

theorem one_test_method_per_mixin:
  "test_methods (own_methods ListAPITestCaseMixin) = [''test_list'']
   \<and> test_methods (own_methods DetailAPITestCaseMixin) = [''test_detail'']
   \<and> test_methods (own_methods CreateAPITestCaseMixin) = [''test_create'']
   \<and> test_methods (own_methods UpdateAPITestCaseMixin) = [''test_update'']
   \<and> test_methods (own_methods DestroyAPITestCaseMixin) = [''test_destroy'']
   \<and> own_methods ReadRESTAPITestCaseMixin = []
   \<and> own_methods WriteRESTAPITestCaseMixin = []
   \<and> own_methods ReadWriteRESTAPITestCaseMixin = []
   \<and> set (test_methods (all_methods ReadRESTAPITestCaseMixin))
       = {''test_list'', ''test_detail''}
   \<and> set (test_methods (all_methods WriteRESTAPITestCaseMixin))
       = {''test_create'', ''test_update'', ''test_destroy''}
   \<and> set (test_methods (all_methods ReadWriteRESTAPITestCaseMixin))
       = {''test_list'', ''test_detail'', ''test_create'', ''test_update'', ''test_destroy''}"
  by (simp add: test_methods_def all_methods.simps)

section \<open>Expected results of an update\<close>


lemma dict_get_own_item:
  "distinct (map fst items) \<Longrightarrow> (key, v) \<in> set items \<Longrightarrow> dict_get items key v = v"
  by (simp add: dict_get_def)



section \<open>Attributes checked by the detail test\<close>

lemma check_attributes_name:
  "check_attributes e obj (Name attr # rest) d =
     (case py_getattr obj attr of
        Inl x \<Rightarrow> Inl x
      | Inr a \<Rightarrow>
          (case py_getitem d attr of
             Inl x \<Rightarrow> Inl x
           | Inr expected \<Rightarrow>
               if py_unicode e a = expected then check_attributes e obj rest d
               else Inl AssertionError))"
  by (simp add: assertEqual_def split: sum.splits)

lemma check_attributes_integer:
  "py_getattr obj attr = Inr (PInt i) \<Longrightarrow> py_getitem d attr = Inr expected \<Longrightarrow>
   check_attributes e obj (Name attr # rest) d =
     (if expected = PStr (str_int i) then check_attributes e obj rest d
      else Inl AssertionError)"
  by (auto simp add: assertEqual_def)

lemma check_attributes_tuple_or_list:
  "kind \<noteq> SetK \<Longrightarrow>
   check_attributes e obj (Seq kind key f # rest) d =
     (case f obj of
        Inl x \<Rightarrow> Inl x
      | Inr v \<Rightarrow>
          (case py_getitem d key of
             Inl x \<Rightarrow> Inl x
           | Inr expected \<Rightarrow>
               if v = expected then check_attributes e obj rest d else Inl AssertionError))"
  by (cases kind) (simp_all add: assertEqual_def split: sum.splits)

text \<open>
  C9, at an entry that is a set. The entry \<^verbatim>\<open>set(['id', f])\<close> passes the
  \<^verbatim>\<open>isinstance(attr, (tuple, list, set))\<close> test of \<^verbatim>\<open>_check_attributes\<close>, and the subscript
  \<^verbatim>\<open>attr[1]\<close> then raises \<^verbatim>\<open>TypeError\<close>: nothing is compared, and \<^verbatim>\<open>test_detail\<close> ends
  with the error although the response holds the value that the callable gives. The same
  entry written as a tuple passes.
\<close>

theorem set_entry_raises_TypeError:
  "check_attributes demo_env demo_object [Seq SetK ''id'' (\<lambda>obj. Inr (PStr ''1''))]
     (PDict [(''results'', PList []), (''id'', PStr ''1'')]) = Inl TypeError
   \<and> fst (test_detail demo_env
        (demo_case\<lparr>attributes_to_check := [Seq SetK ''id'' (\<lambda>obj. Inr (PStr ''1''))]\<rparr>)
        [] demo_start) = Inl TypeError
   \<and> check_attributes demo_env demo_object [Seq TupleK ''id'' (\<lambda>obj. Inr (PStr ''1''))]
     (PDict [(''results'', PList []), (''id'', PStr ''1'')]) = Inr ()
   \<and> fst (test_detail demo_env
        (demo_case\<lparr>attributes_to_check := [Seq TupleK ''id'' (\<lambda>obj. Inr (PStr ''1''))]\<rparr>)
        [] demo_start)
      = Inr \<lparr>status_code = 200, data = PDict [(''results'', PList []), (''id'', PStr ''1'')]\<rparr>"
  by (simp add: test_detail_def run_defs demo_defs status_defs assertEqual_def str_int_1)

section \<open>The check of the updated object\<close>
















end
